theory Spec2Isabelle
  imports Main
begin

section \<open>VerilogBits: a Verilog-style bit vector (veriflow/verilog_bits.py)\<close>

text \<open>
  A \<^verbatim>\<open>VerilogBits\<close> object has one field, \<^verbatim>\<open>_data\<close>, a \<^verbatim>\<open>bitstring.BitArray\<close>.
  A BitArray is a sequence of bits stored left to right: position 0 is the leftmost bit, the
  most significant one, and \<^verbatim>\<open>.bin\<close> prints the positions in that order. It is modelled as
  a \<open>bool list\<close> in storage order. The bitstring library is a third-party dependency of
  the repository; the operations of it that VerilogBits calls are modelled after the library's
  documented behaviour, each next to the call that uses it.
\<close>

type_synonym bitarray = "bool list"

subsection \<open>Exceptions\<close>

text \<open>
  Every exception the modelled code can raise is a value. The names are the specification's
  error kinds; the Python exception behind each one is given beside it.
\<close>

datatype range_reason =
    LsbGreaterThanMsb int int  \<comment> \<open>ValueError "LSB (lsb) cannot be greater than MSB (msb) ..."\<close>
  | StepNotSupported           \<comment> \<open>ValueError "Step is not supported in Verilog-style slicing."\<close>

datatype op_family =
    PlusDisabled    \<comment> \<open>"The '+' operator is disabled. Please use VerilogBits.concat() ..."\<close>
  | Comparison      \<comment> \<open>"Comparison operators (<, >, <=, >=) are not supported yet."\<close>
  | Arithmetic      \<comment> \<open>"Arithmetic operators (-, *, /, etc.) are not supported yet."\<close>
  | Bitwise         \<comment> \<open>"Bitwise operators (&, |, ^, ~) are not supported yet."\<close>
  | IntConversion   \<comment> \<open>"Implicit conversion to int is not supported. Use .uint property."\<close>

datatype error =
    ParseError                        \<comment> \<open>bitstring.CreationError: the string is not understood\<close>
  | OutOfRange                        \<comment> \<open>bitstring.CreationError: the integer does not fit the length\<close>
  | LengthRequired                    \<comment> \<open>bitstring.CreationError: an integer needs a positive length\<close>
  | InterpretError                    \<comment> \<open>bitstring.InterpretError\<close>
  | IndexOutOfRange                   \<comment> \<open>IndexError\<close>
  | InvalidRange range_reason         \<comment> \<open>ValueError raised by the slicing code\<close>
  | SliceIndexNotInt                  \<comment> \<open>TypeError "Verilog-style slice indices must be integers."\<close>
  | KeyTypeError                      \<comment> \<open>TypeError "Index must be an integer or slice, not ..."\<close>
  | TypeMismatch nat                  \<comment> \<open>TypeError "Argument i is not a VerilogBits instance ..."\<close>
  | UnsupportedOperation op_family    \<comment> \<open>TypeError raised by a disabled operator\<close>
  | InvalidArgument                   \<comment> \<open>ValueError "Replication count must be a non-negative integer."\<close>
  | EmptyData                         \<comment> \<open>ValueError "Input data cannot be empty."\<close>
  | ZeroDivisionError                 \<comment> \<open>Python's modulo by zero\<close>

subsection \<open>Python values and subscript keys\<close>

text \<open>
  The values the constructor, \<^verbatim>\<open>__setitem__\<close> and \<^verbatim>\<open>concat\<close> tell apart with
  \<^verbatim>\<open>isinstance\<close>. A VerilogBits or BitArray argument is given by its bits: the code only
  reads them (the constructor copies a VerilogBits argument's \<^verbatim>\<open>_data\<close>). A string \<open>s\<close> is
  given together with the outcome of \<^verbatim>\<open>bitstring.BitArray(s)\<close>, the one thing the code does
  with it: the array the library builds from \<open>s\<close>, or the error it raises. The library's parser
  is not among the repository's files, and what it accepts differs between its versions; the
  model takes its outcome as part of the input and fixes it for no string.
\<close>

datatype pyvalue =
    PNone
  | PInt int
  | PStr string "error + bitarray"
  | PVerilogBits bitarray
  | PBitArray bitarray

text \<open>
  The key of \<^verbatim>\<open>v[key]\<close>: an integer, a slice object with its \<^verbatim>\<open>start\<close>, \<^verbatim>\<open>stop\<close> and
  \<^verbatim>\<open>step\<close> (each an integer or None), or anything else.
\<close>

datatype key =
    Index int
  | Slice "int option" "int option" "int option"
  | OtherKey

subsection \<open>BitArray slicing (bitstring)\<close>

text \<open>
  \<^verbatim>\<open>data[a:b]\<close> on a BitArray follows Python's slice rules: a negative bound counts from
  the end, bounds are clamped to the array, and an empty or inverted range gives the empty
  array. It never raises.
\<close>

definition bitarray_getslice :: "bitarray \<Rightarrow> int \<Rightarrow> int \<Rightarrow> bitarray" where
  "bitarray_getslice bs a b =
     (let n = int (length bs);
          s = max (if a < 0 then a + n else a) 0;
          e = min (if b < 0 then b + n else b) n
      in if s < e then take (nat (e - s)) (drop (nat s) bs) else [])"

text \<open>The bit at hardware index \<open>i\<close> (index 0 is the least significant, rightmost bit).\<close>

definition hw_bit :: "bitarray \<Rightarrow> nat \<Rightarrow> bool" where
  "hw_bit bs i = bs ! (length bs - 1 - i)"

subsection \<open>Reading: \<^verbatim>\<open>_parse_verilog_slice\<close> and \<^verbatim>\<open>__getitem__\<close>\<close>

definition parse_verilog_slice :: "bitarray \<Rightarrow> int option \<Rightarrow> int option \<Rightarrow> error + (int \<times> int)" where
  "parse_verilog_slice bs start stop =
     (case (start, stop) of
        (Some msb, Some lsb) \<Rightarrow>
          if lsb > msb then Inl (InvalidRange (LsbGreaterThanMsb lsb msb))
          else
            let bit_length = int (length bs);
                max_index = bit_length - 1
            in if \<not> (0 \<le> msb \<and> msb \<le> max_index \<and> 0 \<le> lsb \<and> lsb \<le> max_index)
               then Inl IndexOutOfRange
               else Inr (bit_length - 1 - msb, bit_length - 1 - lsb + 1)
      | _ \<Rightarrow> Inl SliceIndexNotInt)"

definition getitem :: "bitarray \<Rightarrow> key \<Rightarrow> error + bitarray" where
  "getitem bs k =
     (case k of
        Slice start stop step \<Rightarrow>
          if step \<noteq> None then Inl (InvalidRange StepNotSupported)
          else (case parse_verilog_slice bs start stop of
                  Inl e \<Rightarrow> Inl e
                | Inr (py_start, py_end) \<Rightarrow> Inr (bitarray_getslice bs py_start py_end))
      | Index i \<Rightarrow> Inr (bitarray_getslice bs i (i + 1))
      | OtherKey \<Rightarrow> Inl KeyTypeError)"

subsection \<open>Integers to bits and back (bitstring)\<close>

text \<open>
  The integer initialisers \<^verbatim>\<open>BitArray(uint=v, length=L)\<close> and
  \<^verbatim>\<open>BitArray(int=v, length=L)\<close> and the accessors \<^verbatim>\<open>.uint\<close> and \<^verbatim>\<open>.int\<close> belong to
  the bitstring library, which is not among the repository's files. The specification's
  construction contract describes them: \<open>v\<close> is encoded into exactly \<open>L\<close> bits, unsigned
  binary or two's complement, and a value outside \<open>[0, 2^L - 1]\<close> (respectively
  \<open>[-2^(L-1), 2^(L-1) - 1]\<close>) is refused. The library refuses a missing or non-positive
  length for an integer, and refuses to read an empty array as an integer.
\<close>

text \<open>
  Modelled from the spec: the unsigned binary digits of \<open>v\<close> in \<open>L\<close> positions, most significant
  first.
\<close>

fun uint_bits :: "nat \<Rightarrow> nat \<Rightarrow> bitarray" where
  "uint_bits 0 v = []"
| "uint_bits (Suc L) v = uint_bits L (v div 2) @ [odd v]"

text \<open>
  Modelled from the spec: \<^verbatim>\<open>BitArray(uint=v, length=L)\<close>, the unsigned encoding of \<open>v\<close> in
  exactly \<open>L\<close> bits, refused outside \<open>[0, 2^L - 1]\<close>.
\<close>

definition bitarray_from_uint :: "int \<Rightarrow> int option \<Rightarrow> error + bitarray" where
  "bitarray_from_uint v len =
     (case len of
        None \<Rightarrow> Inl LengthRequired
      | Some L \<Rightarrow>
          if L \<le> 0 then Inl LengthRequired
          else if v \<ge> 2 ^ nat L then Inl OutOfRange
          else if v < 0 then Inl OutOfRange
          else Inr (uint_bits (nat L) (nat v)))"

text \<open>
  Modelled from the spec: \<^verbatim>\<open>BitArray(int=v, length=L)\<close>, the two's-complement encoding of
  \<open>v\<close> in exactly \<open>L\<close> bits, refused outside \<open>[-2^(L-1), 2^(L-1) - 1]\<close>. A negative \<open>v\<close> is
  the bitwise complement of the unsigned encoding of \<open>-(v + 1)\<close>.
\<close>

definition bitarray_from_int :: "int \<Rightarrow> int option \<Rightarrow> error + bitarray" where
  "bitarray_from_int v len =
     (case len of
        None \<Rightarrow> Inl LengthRequired
      | Some L \<Rightarrow>
          if L \<le> 0 then Inl LengthRequired
          else if v \<ge> 2 ^ (nat L - 1) \<or> v < - (2 ^ (nat L - 1)) then Inl OutOfRange
          else if v \<ge> 0 then Inr (uint_bits (nat L) (nat v))
          else Inr (map Not (uint_bits (nat L) (nat (- (v + 1))))))"

text \<open>
  Modelled from the spec: the unsigned value of a bit sequence, most significant bit first.
\<close>

definition bits_to_nat :: "bitarray \<Rightarrow> nat" where
  "bits_to_nat bs = foldl (\<lambda>acc b. 2 * acc + (if b then 1 else 0)) 0 bs"

text \<open>
  Modelled from the spec: the accessor \<^verbatim>\<open>.uint\<close> (the library's \<^verbatim>\<open>BitArray.uint\<close>).
\<close>

definition uint :: "bitarray \<Rightarrow> error + int" where
  "uint bs = (if bs = [] then Inl InterpretError else Inr (int (bits_to_nat bs)))"

text \<open>
  Modelled from the spec: the accessor \<^verbatim>\<open>.sint\<close> (the library's \<^verbatim>\<open>BitArray.int\<close>), the
  two's-complement value: the unsigned value when the top bit is clear, and that value minus
  \<open>2^length\<close> otherwise.
\<close>

definition sint :: "bitarray \<Rightarrow> error + int" where
  "sint bs =
     (if bs = [] then Inl InterpretError
      else
        let ui = int (bits_to_nat bs)
        in if ui div 2 ^ (length bs - 1) = 0 then Inr ui else Inr (ui - 2 ^ length bs))"

subsection \<open>Literals and text (bitstring)\<close>

text \<open>
  The bits of the two kinds of literal the specification names, in their plainest form:
  \<^verbatim>\<open>0b\<close> followed by binary digits gives one bit per digit, and \<^verbatim>\<open>0x\<close> followed by
  hexadecimal digits gives four bits per digit. \<open>literal_bits\<close> is \<open>None\<close> for every other
  string: that says nothing about what the library makes of it. The function is used only to
  name the array of a literal in the examples; the constructor below does not call it.
\<close>

definition bin_digit :: "char \<Rightarrow> bool option" where
  "bin_digit c =
     (if c = CHR ''0'' then Some False else if c = CHR ''1'' then Some True else None)"

definition hex_digit :: "char \<Rightarrow> nat option" where
  "hex_digit c =
     (let n = (of_char c :: nat)
      in if 48 \<le> n \<and> n \<le> 57 then Some (n - 48)
         else if 97 \<le> n \<and> n \<le> 102 then Some (n - 87)
         else if 65 \<le> n \<and> n \<le> 70 then Some (n - 55)
         else None)"

definition literal_bits :: "string \<Rightarrow> bitarray option" where
  "literal_bits s =
     (case s of
        c0 # c1 # d # ds \<Rightarrow>
          if c0 = CHR ''0'' \<and> c1 = CHR ''b'' then those (map bin_digit (d # ds))
          else if c0 = CHR ''0'' \<and> c1 = CHR ''x''
            then map_option (\<lambda>ns. concat (map (uint_bits 4) ns)) (those (map hex_digit (d # ds)))
          else None
      | _ \<Rightarrow> None)"

text \<open>\<^verbatim>\<open>data[a:]\<close>: the slice with no upper bound.\<close>

definition bitarray_slice_from :: "bitarray \<Rightarrow> int \<Rightarrow> bitarray" where
  "bitarray_slice_from bs a =
     (let n = int (length bs);
          s = max (if a < 0 then a + n else a) 0
      in drop (nat s) bs)"

text \<open>The property \<^verbatim>\<open>.bin\<close>: one character per bit, in storage order.\<close>

definition bin :: "bitarray \<Rightarrow> string" where
  "bin bs = map (\<lambda>b. if b then CHR ''1'' else CHR ''0'') bs"

text \<open>
  The property \<^verbatim>\<open>.hex\<close> of a BitArray: one lower-case digit per four bits, no prefix. The
  library raises InterpretError when the length is not a multiple of 4.
\<close>

fun nibbles :: "bitarray \<Rightarrow> nat list" where
  "nibbles (a # b # c # d # rest) = bits_to_nat [a, b, c, d] # nibbles rest"
| "nibbles rest = []"

definition hex_char :: "nat \<Rightarrow> char" where
  "hex_char n = ''0123456789abcdef'' ! n"

definition bitarray_hex :: "bitarray \<Rightarrow> error + string" where
  "bitarray_hex bs =
     (if length bs mod 4 \<noteq> 0 then Inl InterpretError else Inr (map hex_char (nibbles bs)))"

subsection \<open>The constructor \<^verbatim>\<open>__init__\<close>\<close>

text \<open>
  \<^verbatim>\<open>VerilogBits(value, length, signed)\<close>; the result is the new object's \<^verbatim>\<open>_data\<close>. The
  four branches are the source's, in its order. In the last one \<^verbatim>\<open>BitArray(value)\<close> is
  the empty array for \<^verbatim>\<open>None\<close> and, for a string, the outcome given with the string;
  \<^verbatim>\<open>self._data[-length:]\<close> is the slice from \<open>-length\<close>, and \<^verbatim>\<open>prepend('uint:k=0')\<close> puts
  \<open>k\<close> zero bits in front.
\<close>

definition VerilogBits_init :: "pyvalue \<Rightarrow> int option \<Rightarrow> bool \<Rightarrow> error + bitarray" where
  "VerilogBits_init val len signed =
     (case val of
        PVerilogBits bs \<Rightarrow> Inr bs
      | PBitArray bs \<Rightarrow> Inr bs
      | PInt v \<Rightarrow> if signed then bitarray_from_int v len else bitarray_from_uint v len
      | _ \<Rightarrow>
          (case (case val of PStr s made \<Rightarrow> made | _ \<Rightarrow> Inr []) of
             Inl e \<Rightarrow> Inl e
           | Inr d \<Rightarrow>
               (case len of
                  None \<Rightarrow> Inr d
                | Some L \<Rightarrow>
                    if int (length d) > L then Inr (bitarray_slice_from d (- L))
                    else if int (length d) < L
                      then Inr (replicate (nat (L - int (length d))) False @ d)
                    else Inr d)))"

subsection \<open>Writing: \<^verbatim>\<open>__setitem__\<close>\<close>

text \<open>
  \<^verbatim>\<open>data[a:b] = value\<close> on a BitArray replaces the bits of the slice by the bits of
  \<open>value\<close>, as a Python list does: when the widths differ the array shrinks or grows.
  \<^verbatim>\<open>data[k] = value\<close> with an integer key raises IndexError when \<open>k\<close> (counted from the
  end when negative) is not a position of the array, and otherwise replaces that one bit by
  the bits of \<open>value\<close>.
\<close>

definition bitarray_setslice :: "bitarray \<Rightarrow> int \<Rightarrow> int \<Rightarrow> bitarray \<Rightarrow> bitarray" where
  "bitarray_setslice bs a b val =
     (let n = int (length bs);
          s = min (max (if a < 0 then a + n else a) 0) n;
          e = max s (min (max (if b < 0 then b + n else b) 0) n)
      in take (nat s) bs @ val @ drop (nat e) bs)"

definition bitarray_setbit :: "bitarray \<Rightarrow> int \<Rightarrow> bitarray \<Rightarrow> error + bitarray" where
  "bitarray_setbit bs k val =
     (let n = int (length bs);
          p = (if k < 0 then k + n else k)
      in if \<not> (0 \<le> p \<and> p < n) then Inl IndexOutOfRange
         else Inr (take (nat p) bs @ val @ drop (nat p + 1) bs))"

definition setitem :: "bitarray \<Rightarrow> key \<Rightarrow> pyvalue \<Rightarrow> error + bitarray" where
  "setitem bs k val =
     (case VerilogBits_init val None False of
        Inl e \<Rightarrow> Inl e
      | Inr value_to_set \<Rightarrow>
          (case k of
             Slice start stop step \<Rightarrow>
               if step \<noteq> None then Inl (InvalidRange StepNotSupported)
               else (case parse_verilog_slice bs start stop of
                       Inl e \<Rightarrow> Inl e
                     | Inr (py_start, py_end) \<Rightarrow>
                         Inr (bitarray_setslice bs py_start py_end value_to_set))
           | Index i \<Rightarrow> bitarray_setbit bs i value_to_set
           | OtherKey \<Rightarrow> Inl KeyTypeError))"

subsection \<open>\<^verbatim>\<open>concat\<close>\<close>

text \<open>
  The loop over \<^verbatim>\<open>enumerate(args)\<close>, with the index \<open>i\<close> and the accumulated
  \<^verbatim>\<open>concatenated_data\<close>.
\<close>

fun concat_loop :: "nat \<Rightarrow> bitarray \<Rightarrow> pyvalue list \<Rightarrow> error + bitarray" where
  "concat_loop i concatenated_data [] = Inr concatenated_data"
| "concat_loop i concatenated_data (arg # args) =
     (case arg of
        PVerilogBits d \<Rightarrow> concat_loop (Suc i) (concatenated_data @ d) args
      | _ \<Rightarrow> Inl (TypeMismatch i))"

definition concat_bits :: "pyvalue list \<Rightarrow> error + bitarray" where
  "concat_bits args = concat_loop 0 [] args"

fun is_VerilogBits :: "pyvalue \<Rightarrow> bool" where
  "is_VerilogBits (PVerilogBits d) = True"
| "is_VerilogBits other = False"

fun data_of :: "pyvalue \<Rightarrow> bitarray" where
  "data_of (PVerilogBits d) = d"
| "data_of (PBitArray d) = d"
| "data_of other = []"

subsection \<open>The disabled operators\<close>

text \<open>
  The special methods the class defines only to raise TypeError. Python calls the first
  method of a pair for \<^verbatim>\<open>v op x\<close> and the reflected one (\<^verbatim>\<open>__rsub__\<close>, ...) for
  \<^verbatim>\<open>x op v\<close>; a comparison \<^verbatim>\<open>x < v\<close> reaches \<^verbatim>\<open>v.__gt__(x)\<close>.
\<close>

datatype binary_op =
    Op_lt | Op_le | Op_gt | Op_ge
  | Op_add
  | Op_sub | Op_rsub | Op_mul | Op_rmul | Op_truediv | Op_rtruediv
  | Op_and | Op_rand | Op_or | Op_ror | Op_xor | Op_rxor

datatype unary_op = Op_invert | Op_int

fun binary_method :: "binary_op \<Rightarrow> bitarray \<Rightarrow> pyvalue \<Rightarrow> error + pyvalue" where
  "binary_method Op_lt self other = Inl (UnsupportedOperation Comparison)"
| "binary_method Op_le self other = Inl (UnsupportedOperation Comparison)"
| "binary_method Op_gt self other = Inl (UnsupportedOperation Comparison)"
| "binary_method Op_ge self other = Inl (UnsupportedOperation Comparison)"
| "binary_method Op_add self other = Inl (UnsupportedOperation PlusDisabled)"
| "binary_method Op_sub self other = Inl (UnsupportedOperation Arithmetic)"
| "binary_method Op_rsub self other = Inl (UnsupportedOperation Arithmetic)"
| "binary_method Op_mul self other = Inl (UnsupportedOperation Arithmetic)"
| "binary_method Op_rmul self other = Inl (UnsupportedOperation Arithmetic)"
| "binary_method Op_truediv self other = Inl (UnsupportedOperation Arithmetic)"
| "binary_method Op_rtruediv self other = Inl (UnsupportedOperation Arithmetic)"
| "binary_method Op_and self other = Inl (UnsupportedOperation Bitwise)"
| "binary_method Op_rand self other = Inl (UnsupportedOperation Bitwise)"
| "binary_method Op_or self other = Inl (UnsupportedOperation Bitwise)"
| "binary_method Op_ror self other = Inl (UnsupportedOperation Bitwise)"
| "binary_method Op_xor self other = Inl (UnsupportedOperation Bitwise)"
| "binary_method Op_rxor self other = Inl (UnsupportedOperation Bitwise)"

fun unary_method :: "unary_op \<Rightarrow> bitarray \<Rightarrow> error + pyvalue" where
  "unary_method Op_invert self = Inl (UnsupportedOperation Bitwise)"
| "unary_method Op_int self = Inl (UnsupportedOperation IntConversion)"

section \<open>The memory-file writer (veriflow/mem_tools.py)\<close>

text \<open>
  \<^verbatim>\<open>MemTools.write_mem_file\<close>. The result is the text written to the file: for the word
  at index \<open>i\<close> its \<^verbatim>\<open>value_str\<close>, then a newline when \<open>(i + 1) % words_per_line == 0\<close>
  and a space otherwise. An exception ends the loop.
\<close>

definition value_str :: "bool \<Rightarrow> bitarray \<Rightarrow> error + string" where
  "value_str is_hex vb = (if is_hex then bitarray_hex vb else Inr (bin vb))"

fun write_words :: "nat \<Rightarrow> bitarray list \<Rightarrow> bool \<Rightarrow> int \<Rightarrow> error + string" where
  "write_words i [] is_hex words_per_line = Inr []"
| "write_words i (vb # rest) is_hex words_per_line =
     (case value_str is_hex vb of
        Inl e \<Rightarrow> Inl e
      | Inr text \<Rightarrow>
          if words_per_line = 0 then Inl ZeroDivisionError
          else
            (case write_words (Suc i) rest is_hex words_per_line of
               Inl e \<Rightarrow> Inl e
             | Inr out \<Rightarrow>
                 Inr (text @ (if (int i + 1) mod words_per_line = 0 then [CHR 0x0A] else '' '')
                        @ out)))"

definition write_mem_file :: "bitarray list \<Rightarrow> bool \<Rightarrow> int \<Rightarrow> error + string" where
  "write_mem_file data is_hex words_per_line =
     (if data = [] then Inl EmptyData else write_words 0 data is_hex words_per_line)"

section \<open>Vectors used in the examples\<close>

text \<open>\<^verbatim>\<open>VerilogBits(value=170, length=8)\<close>, the vector of the repository's tests.\<close>

definition bits_10101010 :: bitarray where
  "bits_10101010 = [True, False, True, False, True, False, True, False]"

definition bits_00000000 :: bitarray where
  "bits_00000000 = [False, False, False, False, False, False, False, False]"

definition bits_0000 :: bitarray where
  "bits_0000 = [False, False, False, False]"

section \<open>Ranged read\<close>

lemma getslice_valid:
  assumes "0 \<le> s" "s < e" "e \<le> int (length bs)"
  shows "bitarray_getslice bs s e = take (nat (e - s)) (drop (nat s) bs)"
  using assms by (simp add: bitarray_getslice_def Let_def)

lemma getitem_slice_ok:
  assumes "lsb \<le> msb" "0 \<le> lsb" "msb < int (length v)"
  shows "getitem v (Slice (Some msb) (Some lsb) None) =
           Inr (take (nat (msb - lsb + 1)) (drop (length v - 1 - nat msb) v))"
proof -
  let ?n = "int (length v)"
  have p: "parse_verilog_slice v (Some msb) (Some lsb) = Inr (?n - 1 - msb, ?n - 1 - lsb + 1)"
    using assms by (simp add: parse_verilog_slice_def Let_def)
  have g: "bitarray_getslice v (?n - 1 - msb) (?n - lsb) =
             take (nat ((?n - lsb) - (?n - 1 - msb))) (drop (nat (?n - 1 - msb)) v)"
    using assms by (intro getslice_valid) auto
  have a1: "(?n - lsb) - (?n - 1 - msb) = msb - lsb + 1" by simp
  have a2: "nat (?n - 1 - msb) = length v - 1 - nat msb" using assms by linarith
  have "getitem v (Slice (Some msb) (Some lsb) None) =
          Inr (bitarray_getslice v (?n - 1 - msb) (?n - lsb))"
    by (simp add: getitem_def p)
  also have "\<dots> = Inr (take (nat (msb - lsb + 1)) (drop (length v - 1 - nat msb) v))"
    unfolding g a1 a2 ..
  finally show ?thesis .
qed

lemma take_drop_map_nth:
  assumes "s + k \<le> length v"
  shows "take k (drop s v) = map (\<lambda>p. v ! p) [s ..< s + k]"
  using assms by (intro nth_equalityI) (auto simp: add.commute)

lemma hw_bit_take_drop:
  assumes "s + k \<le> length v" "j < k"
  shows "hw_bit (take k (drop s v)) j = hw_bit v (length v - s - k + j)"
proof -
  have len: "length (take k (drop s v)) = k" using assms by simp
  have "hw_bit (take k (drop s v)) j = (take k (drop s v)) ! (k - 1 - j)"
    by (simp only: hw_bit_def len)
  also have "\<dots> = v ! (s + (k - 1 - j))" using assms by simp
  also have "s + (k - 1 - j) = length v - 1 - (length v - s - k + j)" using assms by arith
  finally show ?thesis by (simp add: hw_bit_def)
qed

lemma getitem_slice_bits:
  assumes "lsb \<le> msb" "0 \<le> lsb" "msb < int (length v)"
  shows "\<exists>r. getitem v (Slice (Some msb) (Some lsb) None) = Inr r
           \<and> int (length r) = msb - lsb + 1
           \<and> r = map (\<lambda>p. v ! p) [length v - 1 - nat msb ..< length v - nat lsb]
           \<and> (\<forall>j. int j \<le> msb - lsb \<longrightarrow> hw_bit r j = hw_bit v (nat lsb + j))"
proof -
  define s where "s = length v - 1 - nat msb"
  define k where "k = nat (msb - lsb + 1)"
  define r where "r = take k (drop s v)"
  have sk: "s + k = length v - nat lsb" using assms unfolding s_def k_def by linarith
  then have le: "s + k \<le> length v" by simp
  have g: "getitem v (Slice (Some msb) (Some lsb) None) = Inr r"
    using getitem_slice_ok [OF assms] by (simp add: r_def s_def k_def)
  have l: "int (length r) = msb - lsb + 1"
    using le assms by (simp add: r_def k_def)
  have m: "r = map (\<lambda>p. v ! p) [s ..< length v - nat lsb]"
    using take_drop_map_nth [OF le] by (simp add: r_def sk)
  have h: "hw_bit r j = hw_bit v (nat lsb + j)" if "int j \<le> msb - lsb" for j
  proof -
    have jk: "j < k" using that assms unfolding k_def by linarith
    have "length v - s - k + j = nat lsb + j" using sk le assms by linarith
    with hw_bit_take_drop [OF le jk] show ?thesis by (simp add: r_def)
  qed
  show ?thesis using g l m h unfolding s_def by blast
qed

lemma getitem_slice_lsb_gt_msb:
  "msb < lsb \<Longrightarrow> getitem v (Slice (Some msb) (Some lsb) None) = Inl (InvalidRange (LsbGreaterThanMsb lsb msb))"
  by (simp add: getitem_def parse_verilog_slice_def)

lemma getitem_slice_step:
  "step \<noteq> None \<Longrightarrow> getitem v (Slice start stop step) = Inl (InvalidRange StepNotSupported)"
  by (simp add: getitem_def)

lemma getitem_slice_out_of_range:
  assumes "lsb \<le> msb" "msb < 0 \<or> msb > int (length v) - 1 \<or> lsb < 0 \<or> lsb > int (length v) - 1"
  shows "getitem v (Slice (Some msb) (Some lsb) None) = Inl IndexOutOfRange"
  using assms by (auto simp: getitem_def parse_verilog_slice_def Let_def)

text \<open>
  Claim C1. For a vector \<open>v\<close> and integers \<open>lsb \<le> msb\<close>, both within \<open>[0, len(v) - 1]\<close>, the
  ranged read \<^verbatim>\<open>v[msb:lsb]\<close> returns a vector of length \<open>msb - lsb + 1\<close> that holds the
  storage positions \<open>len(v) - 1 - msb\<close> up to, but excluding, \<open>len(v) - lsb\<close> of \<open>v\<close>; its bit
  at hardware index \<open>j\<close> is the bit of \<open>v\<close> at hardware index \<open>lsb + j\<close>. With \<open>lsb > msb\<close> the
  read fails with InvalidRange (LSB cannot be greater than MSB); with a step it fails with
  InvalidRange; and with \<open>lsb \<le> msb\<close> and an index outside \<open>[0, len(v) - 1]\<close> it fails with
  IndexOutOfRange. The code makes the three checks in this order: step, \<open>lsb > msb\<close>, bounds.
\<close>

theorem ranged_read_contract:
  fixes v :: bitarray and msb lsb :: int
  shows "(lsb \<le> msb \<and> 0 \<le> lsb \<and> msb \<le> int (length v) - 1 \<longrightarrow>
            (\<exists>r. getitem v (Slice (Some msb) (Some lsb) None) = Inr r
               \<and> int (length r) = msb - lsb + 1
               \<and> r = map (\<lambda>p. v ! p) [length v - 1 - nat msb ..< length v - nat lsb]
               \<and> (\<forall>j. int j \<le> msb - lsb \<longrightarrow> hw_bit r j = hw_bit v (nat lsb + j))))
       \<and> (lsb > msb \<longrightarrow>
            getitem v (Slice (Some msb) (Some lsb) None) = Inl (InvalidRange (LsbGreaterThanMsb lsb msb)))
       \<and> (step \<noteq> None \<longrightarrow>
            getitem v (Slice (Some msb) (Some lsb) step) = Inl (InvalidRange StepNotSupported))
       \<and> (lsb \<le> msb \<and> (msb < 0 \<or> msb > int (length v) - 1 \<or> lsb < 0 \<or> lsb > int (length v) - 1) \<longrightarrow>
            getitem v (Slice (Some msb) (Some lsb) None) = Inl IndexOutOfRange)"
proof (intro conjI impI)
  assume "lsb \<le> msb \<and> 0 \<le> lsb \<and> msb \<le> int (length v) - 1"
  then show "\<exists>r. getitem v (Slice (Some msb) (Some lsb) None) = Inr r
               \<and> int (length r) = msb - lsb + 1
               \<and> r = map (\<lambda>p. v ! p) [length v - 1 - nat msb ..< length v - nat lsb]
               \<and> (\<forall>j. int j \<le> msb - lsb \<longrightarrow> hw_bit r j = hw_bit v (nat lsb + j))"
    by (intro getitem_slice_bits) auto
next
  assume "msb < lsb"
  then show "getitem v (Slice (Some msb) (Some lsb) None) = Inl (InvalidRange (LsbGreaterThanMsb lsb msb))"
    by (rule getitem_slice_lsb_gt_msb)
next
  assume "step \<noteq> None"
  then show "getitem v (Slice (Some msb) (Some lsb) step) = Inl (InvalidRange StepNotSupported)"
    by (rule getitem_slice_step)
next
  assume "lsb \<le> msb \<and> (msb < 0 \<or> msb > int (length v) - 1 \<or> lsb < 0 \<or> lsb > int (length v) - 1)"
  then show "getitem v (Slice (Some msb) (Some lsb) None) = Inl IndexOutOfRange"
    by (intro getitem_slice_out_of_range) auto
qed

theorem ranged_read_contract_witness:
  "getitem bits_10101010 (Slice (Some 5) (Some 2) None) = Inr [True, False, True, False]
   \<and> hw_bit [True, False, True, False] 0 = hw_bit bits_10101010 2
   \<and> getitem bits_10101010 (Slice (Some 4) (Some 5) None) = Inl (InvalidRange (LsbGreaterThanMsb 5 4))
   \<and> getitem bits_10101010 (Slice (Some 7) (Some 0) (Some 2)) = Inl (InvalidRange StepNotSupported)
   \<and> getitem bits_10101010 (Slice (Some 8) (Some 0) None) = Inl IndexOutOfRange"
proof -
  note c = ranged_read_contract [of 2 5 bits_10101010 "Some 2"]
  note d = ranged_read_contract [of 0 8 bits_10101010 "Some 2"]
  note e = ranged_read_contract [of 5 4 bits_10101010 "Some 2"]
  note f = ranged_read_contract [of 0 7 bits_10101010 "Some 2"]
  have 1: "getitem bits_10101010 (Slice (Some 5) (Some 2) None) = Inr [True, False, True, False]"
    using c by (simp add: bits_10101010_def)
  have 2: "hw_bit [True, False, True, False] 0 = hw_bit bits_10101010 2"
    by (simp add: hw_bit_def bits_10101010_def)
  have 3: "getitem bits_10101010 (Slice (Some 4) (Some 5) None) = Inl (InvalidRange (LsbGreaterThanMsb 5 4))"
    using e by simp
  have 4: "getitem bits_10101010 (Slice (Some 7) (Some 0) (Some 2)) = Inl (InvalidRange StepNotSupported)"
    using f by simp
  have 5: "getitem bits_10101010 (Slice (Some 8) (Some 0) None) = Inl IndexOutOfRange"
    using d by (simp add: bits_10101010_def)
  show ?thesis using 1 2 3 4 5 by blast
qed

section \<open>Single-bit read\<close>

lemma getslice_one:
  assumes "0 \<le> i" "i < int (length v)"
  shows "bitarray_getslice v i (i + 1) = [v ! nat i]"
proof -
  have n: "nat i < length v" using assms by linarith
  have "bitarray_getslice v i (i + 1) = take (nat (i + 1 - i)) (drop (nat i) v)"
    using assms by (intro getslice_valid) auto
  also have "\<dots> = take 1 (drop (nat i) v)" by simp
  also have "\<dots> = [v ! nat i]"
    using Cons_nth_drop_Suc [OF n, symmetric] by simp
  finally show ?thesis .
qed

text \<open>
  Claim C2, as the code has it. For \<open>0 \<le> i < len(v)\<close> the single-bit read \<^verbatim>\<open>v[i]\<close> returns a
  vector of length 1 (not a bare boolean or integer) holding the bit at storage position \<open>i\<close>
  counted from the left: index 0 is the most significant bit, so the bit returned is the one
  at hardware index \<open>len(v) - 1 - i\<close>. The repository's test of this read is named
  \<^verbatim>\<open>test_python_style_indexing\<close> and expects \<^verbatim>\<open>v[0].bin == '1'\<close> for the value 170.
\<close>

theorem single_bit_read_storage_index:
  fixes v :: bitarray and i :: int
  shows "0 \<le> i \<and> i < int (length v) \<longrightarrow>
           getitem v (Index i) = Inr [v ! nat i]
           \<and> v ! nat i = hw_bit v (length v - 1 - nat i)"
proof (intro impI conjI)
  assume a: "0 \<le> i \<and> i < int (length v)"
  then show "getitem v (Index i) = Inr [v ! nat i]"
    by (simp add: getitem_def getslice_one)
  have "nat i < length v" using a by linarith
  then have "length v - 1 - (length v - 1 - nat i) = nat i" by arith
  then show "v ! nat i = hw_bit v (length v - 1 - nat i)"
    by (simp only: hw_bit_def)
qed

theorem single_bit_read_storage_index_witness:
  "getitem bits_10101010 (Index 7) = Inr [bits_10101010 ! 7]
   \<and> bits_10101010 ! 7 = hw_bit bits_10101010 0"
  using single_bit_read_storage_index [of 7 bits_10101010]
  by (simp add: bits_10101010_def)

text \<open>
  The claim as stated fails: on \<^verbatim>\<open>10101010\<close> the read \<^verbatim>\<open>v[0]\<close> gives 1 while the bit at
  hardware index 0 is 0, and \<^verbatim>\<open>v[8]\<close> returns the empty vector instead of failing.
\<close>

theorem single_bit_read_counterexample:
  "getitem bits_10101010 (Index 0) = Inr [True]
   \<and> hw_bit bits_10101010 0 = False
   \<and> getitem bits_10101010 (Index 8) = Inr []"
  by (simp add: getitem_def bitarray_getslice_def hw_bit_def bits_10101010_def)

section \<open>Indexed and ranged write\<close>

text \<open>The list \<open>take s bs @ w @ drop e bs\<close>: the bits from \<open>s\<close> up to \<open>e\<close> replaced by \<open>w\<close>.\<close>

lemma splice_length:
  assumes "s \<le> e" "e \<le> length bs"
  shows "length (take s bs @ w @ drop e bs) = length bs - (e - s) + length w"
  using assms by simp

lemma splice_nth_before:
  assumes "p < s" "s \<le> length bs"
  shows "(take s bs @ w @ drop e bs) ! p = bs ! p"
  using assms by (simp add: nth_append)

lemma splice_nth_inside:
  assumes "s \<le> p" "p < s + length w" "s \<le> length bs"
  shows "(take s bs @ w @ drop e bs) ! p = w ! (p - s)"
proof -
  have l: "length (take s bs) = s" using assms by simp
  have i: "p - s < length w" using assms by arith
  have "(take s bs @ w @ drop e bs) ! p = (w @ drop e bs) ! (p - s)"
    using assms l by (simp add: nth_append)
  also have "\<dots> = w ! (p - s)" using i by (simp add: nth_append)
  finally show ?thesis .
qed

lemma splice_nth_after:
  assumes "s \<le> e" "e \<le> length bs" "length w = e - s" "e \<le> p" "p < length bs"
  shows "(take s bs @ w @ drop e bs) ! p = bs ! p"
proof -
  have l: "length (take s bs) = s" using assms by simp
  have i: "\<not> p - s < length w" using assms by arith
  have "(take s bs @ w @ drop e bs) ! p = (w @ drop e bs) ! (p - s)"
    using assms l by (simp add: nth_append)
  also have "\<dots> = drop e bs ! (p - s - length w)" using i by (simp add: nth_append)
  also have "\<dots> = bs ! (e + (p - s - length w))" using assms by simp
  also have "e + (p - s - length w) = p" using assms by arith
  finally show ?thesis .
qed

lemma setslice_valid:
  assumes "0 \<le> s" "s \<le> e" "e \<le> int (length bs)"
  shows "bitarray_setslice bs s e w = take (nat s) bs @ w @ drop (nat e) bs"
proof -
  have "min (max s 0) (int (length bs)) = s" using assms by simp
  moreover have "max s (min (max e 0) (int (length bs))) = e" using assms by simp
  ultimately show ?thesis using assms by (simp add: bitarray_setslice_def Let_def)
qed

lemma setitem_slice_ok:
  assumes "VerilogBits_init x None False = Inr w" "lsb \<le> msb" "0 \<le> lsb" "msb < int (length v)"
  shows "setitem v (Slice (Some msb) (Some lsb) None) x =
           Inr (take (length v - 1 - nat msb) v @ w @ drop (length v - nat lsb) v)"
proof -
  let ?n = "int (length v)"
  have p: "parse_verilog_slice v (Some msb) (Some lsb) = Inr (?n - 1 - msb, ?n - 1 - lsb + 1)"
    using assms by (simp add: parse_verilog_slice_def Let_def)
  have g: "bitarray_setslice v (?n - 1 - msb) (?n - lsb) w =
             take (nat (?n - 1 - msb)) v @ w @ drop (nat (?n - lsb)) v"
    using assms by (intro setslice_valid) auto
  have a1: "nat (?n - lsb) = length v - nat lsb" using assms by linarith
  have a2: "nat (?n - 1 - msb) = length v - 1 - nat msb" using assms by linarith
  have "setitem v (Slice (Some msb) (Some lsb) None) x =
          Inr (bitarray_setslice v (?n - 1 - msb) (?n - lsb) w)"
    by (simp add: setitem_def p assms(1))
  also have "\<dots> = Inr (take (length v - 1 - nat msb) v @ w @ drop (length v - nat lsb) v)"
    unfolding g a1 a2 ..
  finally show ?thesis .
qed



lemma setitem_index_ok:
  assumes "VerilogBits_init x None False = Inr w"
  shows "setitem v (Index i) x = bitarray_setbit v i w"
  by (simp add: setitem_def assms)



lemma setitem_index_frame:
  assumes ok: "setitem v (Index i) x = Inr v'"
      and w: "VerilogBits_init x None False = Inr w"
      and width: "length w = 1"
  defines "pos \<equiv> nat (if i < 0 then i + int (length v) else i)"
  shows "length v' = length v"
    and "pos < length v"
    and "\<forall>p. p < length v \<and> p \<noteq> pos \<longrightarrow> v' ! p = v ! p"
    and "v' ! pos = w ! 0"
proof -
  let ?q = "if i < 0 then i + int (length v) else i"
  have b: "bitarray_setbit v i w = Inr v'" using ok setitem_index_ok [OF w] by simp
  then have r: "0 \<le> ?q" "?q < int (length v)"
    by (auto simp: bitarray_setbit_def Let_def split: if_splits)
  then show pl: "pos < length v" unfolding pos_def by linarith
  have v': "v' = take pos v @ w @ drop (pos + 1) v"
    using b r by (auto simp: bitarray_setbit_def Let_def pos_def split: if_splits)
  have se: "pos \<le> pos + 1" "pos + 1 \<le> length v" "length w = pos + 1 - pos" "pos \<le> length v"
    using pl width by arith+
  show "length v' = length v"
    unfolding v' using splice_length [OF se(1,2), of w] width pl by arith
  show "\<forall>p. p < length v \<and> p \<noteq> pos \<longrightarrow> v' ! p = v ! p"
  proof (intro allI impI)
    fix p assume p: "p < length v \<and> p \<noteq> pos"
    show "v' ! p = v ! p"
    proof (cases "p < pos")
      case True
      then show ?thesis unfolding v' by (intro splice_nth_before se)
    next
      case False
      then have "pos + 1 \<le> p" using p by arith
      then show ?thesis unfolding v' using p by (intro splice_nth_after se) auto
    qed
  qed
  have "v' ! pos = w ! (pos - pos)"
    unfolding v' using width by (intro splice_nth_inside se) auto
  then show "v' ! pos = w ! 0" by simp
qed

lemma init_str_no_length: "VerilogBits_init (PStr s made) None signed = made"
  by (cases made) (simp_all add: VerilogBits_init_def)


text \<open>
  Claim C3 at a value narrower than the range. The claim says that a successful write leaves
  \<open>len(v)\<close> and every bit outside the addressed range as they were. On the vector
  \<^verbatim>\<open>10101010\<close> the write \<^verbatim>\<open>v[3:0] = '0b1'\<close> succeeds and leaves the five bits \<^verbatim>\<open>10101\<close>:
  the length went from 8 to 5, and the bit at hardware index 4, outside the range \<open>[3:0]\<close>,
  went from 0 to 1. \<^verbatim>\<open>__setitem__\<close> normalizes the value with \<^verbatim>\<open>VerilogBits(value)\<close>, without
  the width of the range, and the assignment to the slice of \<^verbatim>\<open>_data\<close> then replaces four
  bits by one.
\<close>

theorem ranged_write_changes_length:
  "setitem bits_10101010 (Slice (Some 3) (Some 0) None) (PStr ''0b1'' (Inr [True])) =
     Inr [True, False, True, False, True]
   \<and> length [True, False, True, False, True] \<noteq> length bits_10101010
   \<and> hw_bit [True, False, True, False, True] 4 = True
   \<and> hw_bit bits_10101010 4 = False"
proof -
  have "setitem bits_10101010 (Slice (Some 3) (Some 0) None) (PStr ''0b1'' (Inr [True])) =
          Inr (take (length bits_10101010 - 1 - nat 3) bits_10101010 @ [True]
                 @ drop (length bits_10101010 - nat 0) bits_10101010)"
    by (rule setitem_slice_ok [OF init_str_no_length]) (simp_all add: bits_10101010_def)
  then show ?thesis by (simp add: bits_10101010_def hw_bit_def)
qed




section \<open>Default construction\<close>

lemma bin_zeros: "bin (replicate n False) = replicate n (CHR ''0'')"
  by (simp add: bin_def)

text \<open>
  Claim C10. Constructing a VerilogBits with no value (\<^verbatim>\<open>None\<close>) and a target length
  \<open>L \<ge> 0\<close> gives the vector of \<open>L\<close> zero bits, whose \<^verbatim>\<open>.bin\<close> is \<open>L\<close> characters \<^verbatim>\<open>0\<close>; with
  no value and no length it gives the vector of length zero.
\<close>

theorem default_construction_zeros:
  shows "(0 \<le> L \<longrightarrow>
            VerilogBits_init PNone (Some L) signed = Inr (replicate (nat L) False)
            \<and> bin (replicate (nat L) False) = replicate (nat L) (CHR ''0'')
            \<and> int (length (replicate (nat L) False)) = L)
       \<and> VerilogBits_init PNone None signed = Inr []"
  by (simp add: VerilogBits_init_def bin_zeros)

theorem default_construction_zeros_witness:
  "VerilogBits_init PNone (Some 8) False = Inr bits_00000000
   \<and> bin bits_00000000 = ''00000000''
   \<and> VerilogBits_init PNone None False = Inr []"
proof -
  have r: "replicate (nat 8) False = bits_00000000"
    by (simp add: bits_00000000_def numeral_eq_Suc)
  have c: "replicate (nat 8) (CHR ''0'') = ''00000000''"
    by (simp add: numeral_eq_Suc)
  show ?thesis
    using default_construction_zeros [of 8 False] unfolding r c by simp
qed

section \<open>Concatenation\<close>

lemma concat_loop_all:
  assumes "\<forall>a \<in> set args. is_VerilogBits a"
  shows "concat_loop i acc args = Inr (acc @ concat (map data_of args))"
  using assms
proof (induction args arbitrary: i acc)
  case Nil
  then show ?case by simp
next
  case (Cons a args)
  then obtain d where a: "a = PVerilogBits d" by (cases a) auto
  with Cons show ?case by simp
qed

lemma concat_loop_first_bad:
  assumes "\<exists>a \<in> set args. \<not> is_VerilogBits a"
  shows "concat_loop i acc args = Inl (TypeMismatch (i + length (takeWhile is_VerilogBits args)))"
  using assms
proof (induction args arbitrary: i acc)
  case Nil
  then show ?case by simp
next
  case (Cons a args)
  show ?case
  proof (cases a)
    case (PVerilogBits d)
    with Cons.prems have "\<exists>a \<in> set args. \<not> is_VerilogBits a" by simp
    from Cons.IH [OF this] PVerilogBits show ?thesis by simp
  qed simp_all
qed

lemma length_concat_data:
  "length (concat (map data_of args)) = sum_list (map (\<lambda>a. length (data_of a)) args)"
  by (induction args) simp_all

lemma takeWhile_first_bad:
  assumes "\<exists>a \<in> set args. \<not> P a"
  shows "length (takeWhile P args) < length args
         \<and> \<not> P (args ! length (takeWhile P args))"
  using assms by (induction args) auto

text \<open>
  Claim C7. When every argument is a VerilogBits, \<^verbatim>\<open>concat\<close> returns the arguments' bits
  laid end to end in storage order, the first argument first (the highest-order bits) and the
  last argument last (the lowest-order bits), and the length of the result is the sum of the
  arguments' lengths; for two arguments \<open>a\<close> and \<open>b\<close> the result is \<open>a @ b\<close>. When some argument
  is not a VerilogBits (a raw number, a string, None, a raw BitArray), \<^verbatim>\<open>concat\<close> fails with
  TypeMismatch, naming the index of the first such argument; nothing is coerced.
\<close>

theorem concat_contract:
  shows "((\<forall>a \<in> set args. is_VerilogBits a) \<longrightarrow>
            concat_bits args = Inr (concat (map data_of args))
            \<and> length (concat (map data_of args)) = sum_list (map (\<lambda>a. length (data_of a)) args))
       \<and> (concat_bits (PVerilogBits a # PVerilogBits b # []) = Inr (a @ b))
       \<and> ((\<exists>a \<in> set args. \<not> is_VerilogBits a) \<longrightarrow>
            concat_bits args = Inl (TypeMismatch (length (takeWhile is_VerilogBits args)))
            \<and> length (takeWhile is_VerilogBits args) < length args
            \<and> \<not> is_VerilogBits (args ! length (takeWhile is_VerilogBits args)))"
proof (intro conjI impI)
  assume a: "\<forall>a \<in> set args. is_VerilogBits a"
  show "concat_bits args = Inr (concat (map data_of args))"
    using concat_loop_all [OF a, of 0 "[]"] by (simp add: concat_bits_def)
  show "length (concat (map data_of args)) = sum_list (map (\<lambda>a. length (data_of a)) args)"
    by (rule length_concat_data)
next
  show "concat_bits (PVerilogBits a # PVerilogBits b # []) = Inr (a @ b)"
    by (simp add: concat_bits_def)
next
  assume b: "\<exists>a \<in> set args. \<not> is_VerilogBits a"
  show "concat_bits args = Inl (TypeMismatch (length (takeWhile is_VerilogBits args)))"
    using concat_loop_first_bad [OF b, of 0 "[]"] by (simp add: concat_bits_def)
  show "length (takeWhile is_VerilogBits args) < length args"
    using takeWhile_first_bad [OF b] by blast
  show "\<not> is_VerilogBits (args ! length (takeWhile is_VerilogBits args))"
    using takeWhile_first_bad [OF b] by blast
qed

theorem concat_contract_witness:
  "concat_bits [PVerilogBits [True, True, True, True], PVerilogBits [False, False, False, False],
      PVerilogBits [True, False, True, False]] =
     Inr [True, True, True, True, False, False, False, False, True, False, True, False]
   \<and> concat_bits [PVerilogBits [True, True], PInt 3, PStr ''0b1'' (Inr [True])] = Inl (TypeMismatch 1)"
proof -
  let ?ok = "[PVerilogBits [True, True, True, True], PVerilogBits [False, False, False, False],
      PVerilogBits [True, False, True, False]]"
  let ?bad = "[PVerilogBits [True, True], PInt 3, PStr ''0b1'' (Inr [True])]"
  have 1: "concat_bits ?ok =
     Inr [True, True, True, True, False, False, False, False, True, False, True, False]"
    using concat_contract [of ?ok "[]" "[]", THEN conjunct1] by simp
  have 2: "concat_bits ?bad = Inl (TypeMismatch 1)"
    using concat_contract [of ?bad "[]" "[]", THEN conjunct2, THEN conjunct2] by simp
  show ?thesis using 1 2 by simp
qed

section \<open>The disabled operators\<close>

text \<open>
  Claim C8. Every ordering comparison, \<^verbatim>\<open>+\<close>, every other arithmetic operator, every
  bitwise operator and the conversion to \<^verbatim>\<open>int\<close> fail with UnsupportedOperation, for every
  vector and every operand: the methods raise without looking at either.
\<close>

theorem disabled_operators:
  shows "(bop \<in> {Op_lt, Op_le, Op_gt, Op_ge} \<longrightarrow>
            binary_method bop self other = Inl (UnsupportedOperation Comparison))
       \<and> binary_method Op_add self other = Inl (UnsupportedOperation PlusDisabled)
       \<and> (bop \<in> {Op_sub, Op_rsub, Op_mul, Op_rmul, Op_truediv, Op_rtruediv} \<longrightarrow>
            binary_method bop self other = Inl (UnsupportedOperation Arithmetic))
       \<and> (bop \<in> {Op_and, Op_rand, Op_or, Op_ror, Op_xor, Op_rxor} \<longrightarrow>
            binary_method bop self other = Inl (UnsupportedOperation Bitwise))
       \<and> unary_method Op_invert self = Inl (UnsupportedOperation Bitwise)
       \<and> unary_method Op_int self = Inl (UnsupportedOperation IntConversion)
       \<and> (\<exists>f. binary_method bop self other = Inl (UnsupportedOperation f))
       \<and> (\<exists>f. unary_method uop self = Inl (UnsupportedOperation f))"
  by (cases bop; cases uop; simp)

theorem disabled_operators_witness:
  "binary_method Op_lt bits_10101010 (PVerilogBits bits_0000) = Inl (UnsupportedOperation Comparison)
   \<and> binary_method Op_mul bits_10101010 (PInt 2) = Inl (UnsupportedOperation Arithmetic)
   \<and> binary_method Op_and bits_10101010 PNone = Inl (UnsupportedOperation Bitwise)"
  using disabled_operators [of Op_lt bits_10101010 "PVerilogBits bits_0000" Op_int]
    disabled_operators [of Op_mul bits_10101010 "PInt 2" Op_int]
    disabled_operators [of Op_and bits_10101010 PNone Op_int]
  by simp

section \<open>Integer round trip\<close>

lemma bits_to_nat_Nil: "bits_to_nat [] = 0"
  by (simp add: bits_to_nat_def)

lemma bits_to_nat_snoc: "bits_to_nat (bs @ [b]) = 2 * bits_to_nat bs + (if b then 1 else 0)"
  by (simp add: bits_to_nat_def)

lemma length_uint_bits: "length (uint_bits L v) = L"
  by (induction L arbitrary: v) simp_all

lemma bits_to_nat_uint_bits: "bits_to_nat (uint_bits L v) = v mod 2 ^ L"
proof (induction L arbitrary: v)
  case 0
  then show ?case by (simp add: bits_to_nat_Nil)
next
  case (Suc L)
  have "bits_to_nat (uint_bits (Suc L) v) = 2 * (v div 2 mod 2 ^ L) + v mod 2"
    by (simp add: bits_to_nat_snoc Suc.IH odd_iff_mod_2_eq_one)
  also have "\<dots> = v mod 2 ^ Suc L"
    by (simp add: mod_mult2_eq)
  finally show ?case .
qed

lemma bits_to_nat_less: "bits_to_nat bs < 2 ^ length bs"
proof (induction bs rule: rev_induct)
  case Nil
  then show ?case by (simp add: bits_to_nat_Nil)
next
  case (snoc b bs)
  then show ?case by (simp add: bits_to_nat_snoc)
qed

lemma bits_to_nat_map_Not: "bits_to_nat (map Not bs) + bits_to_nat bs + 1 = 2 ^ length bs"
proof (induction bs rule: rev_induct)
  case Nil
  then show ?case by (simp add: bits_to_nat_Nil)
next
  case (snoc b bs)
  then show ?case by (cases b) (simp_all add: bits_to_nat_snoc)
qed

lemma uint_round_trip:
  assumes "0 < L" "v < 2 ^ L"
  shows "uint (uint_bits L v) = Inr (int v)"
proof -
  have "uint_bits L v \<noteq> []" using assms(1) length_uint_bits [of L v] by auto
  then show ?thesis using assms(2) by (simp add: uint_def bits_to_nat_uint_bits)
qed

lemma sint_nonneg_round_trip:
  assumes "0 < L" "v < 2 ^ (L - 1)"
  shows "sint (uint_bits L v) = Inr (int v)"
proof -
  have ne: "uint_bits L v \<noteq> []" using assms(1) length_uint_bits [of L v] by auto
  have "(2::nat) ^ (L - 1) \<le> 2 ^ L" by (rule power_increasing) simp_all
  then have lt: "v < 2 ^ L" using assms(2) by linarith
  have "int v div 2 ^ (L - 1) = 0"
    using assms(2) by (simp add: div_pos_pos_trivial of_nat_less_numeral_power_cancel_iff)
  then show ?thesis
    using ne lt by (simp add: sint_def Let_def bits_to_nat_uint_bits length_uint_bits)
qed

lemma sint_neg_round_trip:
  assumes "0 < L" "m < 2 ^ (L - 1)"
  shows "sint (map Not (uint_bits L m)) = Inr (- int m - 1)"
proof -
  let ?bs = "map Not (uint_bits L m)"
  have ne: "?bs \<noteq> []" using assms(1) length_uint_bits [of L m] by auto
  have len: "length ?bs = L" by (simp add: length_uint_bits)
  have p: "(2::nat) ^ L = 2 * 2 ^ (L - 1)" using assms(1) by (cases L) simp_all
  then have lt: "m < 2 ^ L" using assms(2) by linarith
  have "bits_to_nat ?bs + bits_to_nat (uint_bits L m) + 1 = 2 ^ L"
    using bits_to_nat_map_Not [of "uint_bits L m"] by (simp add: length_uint_bits)
  then have u: "bits_to_nat ?bs + m + 1 = 2 ^ L"
    using lt by (simp add: bits_to_nat_uint_bits)
  then have ge: "2 ^ (L - 1) \<le> bits_to_nat ?bs" using p assms(2) by linarith
  have "int (bits_to_nat ?bs + m + 1) = int (2 ^ L)" using u by (simp only:)
  then have ui: "int (bits_to_nat ?bs) = 2 ^ L - int m - 1" by simp
  have "int (2 ^ (L - 1)) \<le> int (bits_to_nat ?bs)" using ge by (simp only: of_nat_le_iff)
  then have ge': "(2::int) ^ (L - 1) \<le> int (bits_to_nat ?bs)" by simp
  have pos: "(0::int) < 2 ^ (L - 1)" by simp
  have "0 < int (bits_to_nat ?bs) div 2 ^ (L - 1)"
    using pos_imp_zdiv_pos_iff [OF pos] ge' by blast
  then have "int (bits_to_nat ?bs) div 2 ^ (L - 1) \<noteq> 0" by linarith
  then show ?thesis
    using ne ui by (simp add: sint_def Let_def len del: length_map)
qed

lemma init_uint_in_range:
  assumes "1 \<le> L" "0 \<le> v" "v \<le> 2 ^ nat L - 1"
  shows "VerilogBits_init (PInt v) (Some L) False = Inr (uint_bits (nat L) (nat v))"
    and "uint (uint_bits (nat L) (nat v)) = Inr v"
proof -
  show "VerilogBits_init (PInt v) (Some L) False = Inr (uint_bits (nat L) (nat v))"
    using assms by (simp add: VerilogBits_init_def bitarray_from_uint_def)
  have "int (nat v) < int (2 ^ nat L)" using assms by simp
  then have "nat v < 2 ^ nat L" by (simp only: of_nat_less_iff)
  moreover have "0 < nat L" using assms by simp
  ultimately have "uint (uint_bits (nat L) (nat v)) = Inr (int (nat v))"
    by (intro uint_round_trip)
  then show "uint (uint_bits (nat L) (nat v)) = Inr v" using assms by simp
qed

lemma init_uint_out_of_range:
  assumes "1 \<le> L" "\<not> (0 \<le> v \<and> v \<le> 2 ^ nat L - 1)"
  shows "VerilogBits_init (PInt v) (Some L) False = Inl OutOfRange"
  using assms by (auto simp: VerilogBits_init_def bitarray_from_uint_def)

lemma init_int_in_range:
  assumes "1 \<le> L" "- (2 ^ (nat L - 1)) \<le> v" "v \<le> 2 ^ (nat L - 1) - 1"
  shows "\<exists>bs. VerilogBits_init (PInt v) (Some L) True = Inr bs
              \<and> int (length bs) = L \<and> sint bs = Inr v"
proof (cases "0 \<le> v")
  case True
  have i: "VerilogBits_init (PInt v) (Some L) True = Inr (uint_bits (nat L) (nat v))"
    using assms True by (simp add: VerilogBits_init_def bitarray_from_int_def)
  have "int (nat v) < int (2 ^ (nat L - 1))" using assms True by simp
  then have "nat v < 2 ^ (nat L - 1)" by (simp only: of_nat_less_iff)
  moreover have "0 < nat L" using assms by simp
  ultimately have "sint (uint_bits (nat L) (nat v)) = Inr (int (nat v))"
    by (intro sint_nonneg_round_trip)
  then have "sint (uint_bits (nat L) (nat v)) = Inr v" using True by simp
  with i assms(1) show ?thesis by (simp add: length_uint_bits)
next
  case False
  let ?m = "nat (- (v + 1))"
  have i: "VerilogBits_init (PInt v) (Some L) True = Inr (map Not (uint_bits (nat L) ?m))"
    using assms False by (simp add: VerilogBits_init_def bitarray_from_int_def)
  have "int ?m < int (2 ^ (nat L - 1))" using assms False by simp
  then have "?m < 2 ^ (nat L - 1)" by (simp only: of_nat_less_iff)
  moreover have "0 < nat L" using assms by simp
  ultimately have "sint (map Not (uint_bits (nat L) ?m)) = Inr (- int ?m - 1)"
    by (intro sint_neg_round_trip)
  moreover have "- int ?m - 1 = v" using False by simp
  ultimately have "sint (map Not (uint_bits (nat L) ?m)) = Inr v" by simp
  with i assms(1) show ?thesis by (simp add: length_uint_bits)
qed

lemma init_int_out_of_range:
  assumes "1 \<le> L" "\<not> (- (2 ^ (nat L - 1)) \<le> v \<and> v \<le> 2 ^ (nat L - 1) - 1)"
  shows "VerilogBits_init (PInt v) (Some L) True = Inl OutOfRange"
  using assms by (auto simp: VerilogBits_init_def bitarray_from_int_def)

text \<open>
  Claim C6. For a length \<open>L \<ge> 1\<close> and an integer \<open>v\<close>: unsigned construction succeeds exactly
  when \<open>0 \<le> v \<le> 2^L - 1\<close>, gives \<open>L\<close> bits, and \<^verbatim>\<open>.uint\<close> of the result is \<open>v\<close>; signed
  construction succeeds exactly when \<open>-2^(L-1) \<le> v \<le> 2^(L-1) - 1\<close>, gives \<open>L\<close> bits, and
  \<^verbatim>\<open>.sint\<close> of the result is \<open>v\<close>; a value out of range fails with OutOfRange.
\<close>

theorem integer_round_trip:
  fixes v L :: int
  shows "1 \<le> L \<longrightarrow>
           (0 \<le> v \<and> v \<le> 2 ^ nat L - 1 \<longrightarrow>
              (\<exists>bs. VerilogBits_init (PInt v) (Some L) False = Inr bs
                 \<and> int (length bs) = L \<and> uint bs = Inr v))
         \<and> (\<not> (0 \<le> v \<and> v \<le> 2 ^ nat L - 1) \<longrightarrow>
              VerilogBits_init (PInt v) (Some L) False = Inl OutOfRange)
         \<and> (- (2 ^ (nat L - 1)) \<le> v \<and> v \<le> 2 ^ (nat L - 1) - 1 \<longrightarrow>
              (\<exists>bs. VerilogBits_init (PInt v) (Some L) True = Inr bs
                 \<and> int (length bs) = L \<and> sint bs = Inr v))
         \<and> (\<not> (- (2 ^ (nat L - 1)) \<le> v \<and> v \<le> 2 ^ (nat L - 1) - 1) \<longrightarrow>
              VerilogBits_init (PInt v) (Some L) True = Inl OutOfRange)"
proof (intro impI conjI)
  assume L: "1 \<le> L" and r: "0 \<le> v \<and> v \<le> 2 ^ nat L - 1"
  from r have r1: "0 \<le> v" and r2: "v \<le> 2 ^ nat L - 1" by blast+
  from init_uint_in_range [OF L r1 r2] L
  show "\<exists>bs. VerilogBits_init (PInt v) (Some L) False = Inr bs
                 \<and> int (length bs) = L \<and> uint bs = Inr v"
    by (simp add: length_uint_bits)
next
  assume "1 \<le> L" "\<not> (0 \<le> v \<and> v \<le> 2 ^ nat L - 1)"
  then show "VerilogBits_init (PInt v) (Some L) False = Inl OutOfRange"
    by (rule init_uint_out_of_range)
next
  assume L: "1 \<le> L" and r: "- (2 ^ (nat L - 1)) \<le> v \<and> v \<le> 2 ^ (nat L - 1) - 1"
  from r have r1: "- (2 ^ (nat L - 1)) \<le> v" and r2: "v \<le> 2 ^ (nat L - 1) - 1" by blast+
  show "\<exists>bs. VerilogBits_init (PInt v) (Some L) True = Inr bs
                 \<and> int (length bs) = L \<and> sint bs = Inr v"
    by (rule init_int_in_range [OF L r1 r2])
next
  assume "1 \<le> L" "\<not> (- (2 ^ (nat L - 1)) \<le> v \<and> v \<le> 2 ^ (nat L - 1) - 1)"
  then show "VerilogBits_init (PInt v) (Some L) True = Inl OutOfRange"
    by (rule init_int_out_of_range)
qed

lemma uint_bits_numeral:
  "uint_bits (numeral k) v = uint_bits (pred_numeral k) (v div 2) @ [odd v]"
  by (simp add: numeral_eq_Suc)

lemma init_170: "VerilogBits_init (PInt 170) (Some 8) False = Inr bits_10101010"
  by (simp add: VerilogBits_init_def bitarray_from_uint_def bits_10101010_def uint_bits_numeral)

lemma init_minus_86: "VerilogBits_init (PInt (- 86)) (Some 8) True = Inr bits_10101010"
  by (simp add: VerilogBits_init_def bitarray_from_int_def bits_10101010_def uint_bits_numeral)

theorem integer_round_trip_witness:
  "VerilogBits_init (PInt 170) (Some 8) False = Inr bits_10101010
   \<and> uint bits_10101010 = Inr 170
   \<and> VerilogBits_init (PInt 256) (Some 8) False = Inl OutOfRange
   \<and> VerilogBits_init (PInt (- 86)) (Some 8) True = Inr bits_10101010
   \<and> sint bits_10101010 = Inr (- 86)
   \<and> VerilogBits_init (PInt 128) (Some 8) True = Inl OutOfRange"
proof -
  note a = integer_round_trip [of 8 170]
  note b = integer_round_trip [of 8 256]
  note c = integer_round_trip [of 8 "- 86"]
  note d = integer_round_trip [of 8 128]
  have 1: "uint bits_10101010 = Inr 170" using a init_170 by auto
  have 2: "VerilogBits_init (PInt 256) (Some 8) False = Inl OutOfRange" using b by simp
  have 3: "sint bits_10101010 = Inr (- 86)" using c init_minus_86 by auto
  have 4: "VerilogBits_init (PInt 128) (Some 8) True = Inl OutOfRange" using d by simp
  show ?thesis using 1 2 3 4 init_170 init_minus_86 by simp
qed

section \<open>Construction from a literal\<close>

lemma those_bin_digits: "those (map bin_digit (bin bs)) = Some bs"
  by (induction bs) (simp_all add: bin_def bin_digit_def)

lemma literal_bits_binary:
  assumes "bs \<noteq> []"
  shows "literal_bits (''0b'' @ bin bs) = Some bs"
proof -
  obtain b bs' where bs: "bs = b # bs'" using assms by (cases bs) auto
  have "bin bs = (if b then CHR ''1'' else CHR ''0'') # bin bs'"
    by (simp add: bs bin_def)
  then show ?thesis
    using those_bin_digits [of bs] by (simp add: literal_bits_def)
qed

lemma those_length: "those xs = Some ys \<Longrightarrow> length ys = length xs"
  by (induction xs arbitrary: ys) (auto split: option.splits)

lemma length_concat_nibbles: "length (concat (map (uint_bits 4) ns)) = 4 * length ns"
  by (induction ns) (simp_all add: numeral_eq_Suc)

lemma literal_bits_hex_width:
  assumes "literal_bits (''0x'' @ ds) = Some d"
  shows "length d = 4 * length ds"
proof -
  from assms obtain c cs where ds: "ds = c # cs"
    by (cases ds) (auto simp: literal_bits_def)
  from assms obtain ns where ns: "those (map hex_digit ds) = Some ns"
    and d: "d = concat (map (uint_bits 4) ns)"
    by (auto simp: literal_bits_def ds)
  from those_length [OF ns] have "length ns = length ds" by simp
  with d show ?thesis by (simp add: length_concat_nibbles)
qed

lemma literal_bits_0b1: "literal_bits ''0b1'' = Some [True]"
  by (simp add: literal_bits_def bin_digit_def)

lemma slice_from_low_bits:
  assumes "0 < L" "L < int (length d)"
  shows "bitarray_slice_from d (- L) = drop (length d - nat L) d"
proof -
  have "nat (int (length d) - L) = length d - nat L" using assms by linarith
  then show ?thesis using assms by (simp add: bitarray_slice_from_def Let_def)
qed

text \<open>
  For a target length \<open>L \<ge> 1\<close> the constructor does what claim C5 says: a literal whose array
  \<open>d\<close> is wider than \<open>L\<close> keeps its low-order \<open>L\<close> bits, a narrower one gets zero bits in front,
  and the result has \<open>L\<close> bits; with no length the result is \<open>d\<close>, at its natural width
  (lemma \<open>init_str_no_length\<close>).
\<close>

lemma init_literal_positive_length:
  assumes "1 \<le> L"
  shows "VerilogBits_init (PStr s (Inr d)) (Some L) signed =
           Inr (if int (length d) > L then drop (length d - nat L) d
                else replicate (nat L - length d) False @ d)"
    and "int (length d) > L \<Longrightarrow>
           (\<exists>r. VerilogBits_init (PStr s (Inr d)) (Some L) signed = Inr r \<and> int (length r) = L
              \<and> (\<forall>j. int j < L \<longrightarrow> hw_bit r j = hw_bit d j))"
proof -
  have n: "nat (L - int (length d)) = nat L - length d" using assms by linarith
  show e: "VerilogBits_init (PStr s (Inr d)) (Some L) signed =
           Inr (if int (length d) > L then drop (length d - nat L) d
                else replicate (nat L - length d) False @ d)"
    using assms slice_from_low_bits [of L d]
    by (auto simp: VerilogBits_init_def n)
  show "\<exists>r. VerilogBits_init (PStr s (Inr d)) (Some L) signed = Inr r \<and> int (length r) = L
              \<and> (\<forall>j. int j < L \<longrightarrow> hw_bit r j = hw_bit d j)" if g: "int (length d) > L"
  proof -
    let ?r = "drop (length d - nat L) d"
    have l: "length ?r = nat L" using g assms by simp
    have "hw_bit ?r j = hw_bit d j" if "int j < L" for j
    proof -
      have j: "j < nat L" using that assms by linarith
      have "hw_bit ?r j = ?r ! (nat L - 1 - j)" by (simp only: hw_bit_def l)
      also have "\<dots> = d ! (length d - nat L + (nat L - 1 - j))"
        using g assms by (intro nth_drop) linarith
      also have "length d - nat L + (nat L - 1 - j) = length d - 1 - j"
        using j g assms by linarith
      finally show ?thesis by (simp only: hw_bit_def)
    qed
    then show ?thesis using e g l assms by auto
  qed
qed

lemma init_literal_length_total:
  assumes "1 \<le> L"
  shows "\<exists>r. VerilogBits_init (PStr s (Inr d)) (Some L) signed = Inr r \<and> int (length r) = L
           \<and> length (bin r) = nat L"
proof -
  from init_literal_positive_length(1) [OF assms, of s d signed]
  show ?thesis using assms by (auto simp: bin_def)
qed

text \<open>
  Claim C5 at the target length 0. The claim says that a literal wider than \<open>L\<close> keeps exactly
  its low-order \<open>L\<close> bits, for every \<open>L \<ge> 0\<close>, so \<^verbatim>\<open>VerilogBits('0b1', length=0)\<close> should be
  the empty vector. The code truncates with \<^verbatim>\<open>self._data[-length:]\<close>, which for \<open>length = 0\<close>
  is \<^verbatim>\<open>self._data[0:]\<close>, the whole array: the result keeps its one bit and \<^verbatim>\<open>.bin\<close> is
  \<^verbatim>\<open>1\<close>. The source's comment on that line says that only the low \<open>length\<close> bits are kept.
  The array of the literal \<^verbatim>\<open>0b1\<close> is the single bit 1 (lemma \<open>literal_bits_0b1\<close>).
\<close>

theorem string_construction_length_zero:
  "VerilogBits_init (PStr ''0b1'' (Inr [True])) (Some 0) False = Inr [True]
   \<and> bin [True] = ''1''"
  by (simp add: VerilogBits_init_def bitarray_slice_from_def bin_def)

section \<open>Serialization to a memory file\<close>

lemma length_nibbles: "length (nibbles bs) = length bs div 4"
  by (induction bs rule: nibbles.induct) simp_all

lemma hex_multiple_of_four:
  assumes "length bs mod 4 = 0"
  shows "\<exists>t. value_str True bs = Inr t \<and> length t = length bs div 4"
  using assms by (simp add: value_str_def bitarray_hex_def length_nibbles)

lemma bin_text: "value_str False bs = Inr (bin bs) \<and> length (bin bs) = length bs"
  by (simp add: value_str_def bin_def)

lemma hex_aa: "value_str True bits_10101010 = Inr ''aa''"
  by (simp add: value_str_def bitarray_hex_def bits_10101010_def bits_to_nat_def hex_char_def)

text \<open>
  Claim C9 at a length that is not a multiple of 4. The claim says that the hex serialization
  of every vector has \<open>ceil(length / 4)\<close> digits, so a vector of 5 bits should be written as 2
  digits. The writer takes \<^verbatim>\<open>vb._data.hex\<close>, which raises InterpretError for such a length:
  the write of the vector \<^verbatim>\<open>10101\<close> fails. (For a multiple of 4 the text has
  \<open>length / 4\<close> digits, and the binary text always has \<open>length\<close> characters.)
\<close>

theorem hex_serialization_five_bits:
  "value_str True [True, False, True, False, True] = Inl InterpretError
   \<and> write_mem_file [[True, False, True, False, True]] True 1 = Inl InterpretError"
  by (simp add: write_mem_file_def value_str_def bitarray_hex_def)

end
